theory Spec2Isabelle
  imports Main
begin

section \<open>The Drive demo component (web-implict/src/main.ts)\<close>

text \<open>
  The component \<open>AuthDemo\<close> keeps four reactive fields (\<open>_files\<close>, \<open>_accessToken\<close>,
  \<open>_tokenExpiresAt\<close>, \<open>_error\<close>) and reacts to two buttons. Its methods are asynchronous:
  \<open>_run\<close> awaits the promise of \<open>_requestAuthorization\<close> and then the promise of
  \<open>fetchFileList\<close>; \<open>_revoke\<close> awaits the provider's revoke callback. JavaScript runs one
  task at a time, so the component is modelled as a state machine whose events are the
  tasks the browser can schedule: a click, a callback of the token client, the settlement
  of an HTTP request, the revoke callback. Everything a method does between two awaits
  happens inside one event.

  Modelling choices, all visible in the definitions below:
  \<^item> \<open>undefined\<close> is \<open>None\<close> of type \<open>json option\<close>; \<open>null\<close> of the field \<open>_accessToken\<close> and
    of \<open>_error\<close> is \<open>None\<close> of type \<open>string option\<close>;
  \<^item> \<open>Date.now()\<close> is an integer number of milliseconds handed in with the event;
  \<^item> \<open>expires_in\<close> is a natural number of seconds ("number of seconds remaining" in the
    source's comment);
  \<^item> JSON numbers are integers (no claim depends on fractions);
  \<^item> the identity SDK (\<open>google.accounts.oauth2\<close>) and \<open>fetch\<close> are external: their calls are
    logged in the state and their answers are events.
\<close>

subsection \<open>JSON values, as \<open>res.json()\<close> returns them\<close>

text \<open>An object is the list of its properties, each key once; \<open>map_of\<close> reads one.\<close>

datatype json =
    JNull
  | JBool bool
  | JNum int
  | JStr string
  | JArr "json list"
  | JObj "(string \<times> json) list"

type_synonym jsval = "json option"

datatype js_error =
    Error string
  | TypeError
  | SyntaxError
  | NetworkError

text \<open>JavaScript truthiness of a JSON value, and of a possibly undefined one.\<close>

fun truthy :: "json \<Rightarrow> bool" where
  "truthy JNull = False"
| "truthy (JBool b) = b"
| "truthy (JNum n) = (n \<noteq> 0)"
| "truthy (JStr s) = (s \<noteq> [])"
| "truthy (JArr xs) = True"
| "truthy (JObj kvs) = True"

fun truthy_val :: "jsval \<Rightarrow> bool" where
  "truthy_val None = False"
| "truthy_val (Some v) = truthy v"

text \<open>\<open>!this._accessToken\<close> on a field of type \<open>null | string\<close>: null and the empty string
  are falsy.\<close>

fun truthy_str :: "string option \<Rightarrow> bool" where
  "truthy_str None = False"
| "truthy_str (Some s) = (s \<noteq> [])"

subsection \<open>\<open>fetchFileList\<close>\<close>

text \<open>The request: \<open>URLSearchParams\<close> writes the space of \<open>modifiedTime desc\<close> as \<open>+\<close>, and
  the template literal \<open>`Bearer ${accessToken}`\<close> writes a null token as \<open>null\<close>.\<close>

record request =
  url :: string
  authorization :: string

definition fetchFileList_request :: "string option \<Rightarrow> request" where
  "fetchFileList_request tok =
     \<lparr> url = ''https://www.googleapis.com/drive/v3/files?orderBy=modifiedTime+desc&pageSize=10'',
       authorization = ''Bearer '' @ (case tok of None \<Rightarrow> ''null'' | Some t \<Rightarrow> t) \<rparr>"

text \<open>What \<open>fetch\<close> answers: no response at all (the promise of \<open>fetch\<close> rejects), or a
  response with a status and a body; the body is \<open>None\<close> when it is not JSON, where
  \<open>res.json()\<close> rejects.\<close>

datatype http_outcome =
    NoResponse
  | Response nat "json option"

text \<open>\<open>body.files\<close>: reading a property of \<open>null\<close> throws; an object gives the property
  or \<open>undefined\<close>; booleans, numbers, strings and arrays have no property \<open>files\<close>.\<close>

fun body_files :: "json \<Rightarrow> js_error + jsval" where
  "body_files JNull = Inl TypeError"
| "body_files (JObj kvs) = Inr (map_of kvs ''files'')"
| "body_files (JBool b) = Inr None"
| "body_files (JNum n) = Inr None"
| "body_files (JStr s) = Inr None"
| "body_files (JArr xs) = Inr None"

text \<open>The part of \<open>fetchFileList\<close> after \<open>await fetch(...)\<close>: the value the function
  returns, or the error it throws.\<close>

fun fetchFileList :: "http_outcome \<Rightarrow> js_error + jsval" where
  "fetchFileList NoResponse = Inl NetworkError"
| "fetchFileList (Response status body) =
     (if status \<ge> 400 then Inl (Error ''Unable to fetch files'')
      else case body of
             None \<Rightarrow> Inl SyntaxError
           | Some b \<Rightarrow> body_files b)"

subsection \<open>\<open>filesTemplate\<close>\<close>

text \<open>\<open>file.name\<close> for one element of the list.\<close>

fun file_name :: "json \<Rightarrow> js_error + jsval" where
  "file_name JNull = Inl TypeError"
| "file_name (JObj kvs) = Inr (map_of kvs ''name'')"
| "file_name (JBool b) = Inr None"
| "file_name (JNum n) = Inr None"
| "file_name (JStr s) = Inr None"
| "file_name (JArr xs) = Inr None"

text \<open>\<open>this._files.map(file => ... file.name ...)\<close> on an array: the names in order, or the
  first error thrown.\<close>

fun map_names :: "json list \<Rightarrow> js_error + jsval list" where
  "map_names [] = Inr []"
| "map_names (f # fs) =
     (case file_name f of
        Inl e \<Rightarrow> Inl e
      | Inr n \<Rightarrow> (case map_names fs of Inl e \<Rightarrow> Inl e | Inr ns \<Rightarrow> Inr (n # ns)))"

text \<open>\<open>filesTemplate\<close>: \<open>Inr None\<close> when the template returns nothing, \<open>Inr (Some names)\<close>
  for the list it renders, \<open>Inl\<close> for the error it throws. \<open>this._files.length\<close> throws
  on \<open>undefined\<close> and \<open>null\<close>, is \<open>undefined\<close> on a boolean or a number, and is the
  property \<open>length\<close> of an object; a string or an object with a truthy length has no
  function \<open>map\<close>, so the call throws.\<close>

fun filesTemplate :: "jsval \<Rightarrow> js_error + jsval list option" where
  "filesTemplate None = Inl TypeError"
| "filesTemplate (Some JNull) = Inl TypeError"
| "filesTemplate (Some (JArr xs)) =
     (if xs \<noteq> [] then (case map_names xs of Inl e \<Rightarrow> Inl e | Inr ns \<Rightarrow> Inr (Some ns))
      else Inr None)"
| "filesTemplate (Some (JStr s)) = (if s \<noteq> [] then Inl TypeError else Inr None)"
| "filesTemplate (Some (JBool b)) = Inr None"
| "filesTemplate (Some (JNum n)) = Inr None"
| "filesTemplate (Some (JObj kvs)) =
     (if truthy_val (map_of kvs ''length'') then Inl TypeError else Inr None)"

subsection \<open>The component's state\<close>

record AuthDemo =
  files :: jsval
  accessToken :: "string option"
  tokenExpiresAt :: int
  error :: "string option"

text \<open>The constructor.\<close>

definition constructor :: AuthDemo where
  "constructor = \<lparr> files = Some (JArr []), accessToken = None, tokenExpiresAt = 0, error = None \<rparr>"

text \<open>The promise \<open>_requestAuthorization\<close> returns: pending, resolved with the value given
  to \<open>resolve\<close>, or rejected with the error object, kept by its \<open>type\<close>. Settling a promise
  that is already settled does nothing.\<close>

datatype promise =
    Pending
  | Resolved "string option"
  | Rejected string

text \<open>One call of \<open>fetchFileList\<close>: the token it was given and, once the request has
  settled, what the call returned or threw.\<close>

record listing_call =
  bearer :: "string option"
  outcome :: "(js_error + jsval) option"

text \<open>One call of \<open>google.accounts.oauth2.revoke\<close>: the token it was given and whether the
  provider has called back.\<close>

record revoke_call =
  revoked :: "string option"
  confirmed :: bool

text \<open>The component together with the calls it has made to its collaborators:
  \<open>auths\<close> has one promise for each \<open>client.requestAccessToken()\<close> (each opens the
  provider's popup), \<open>listings\<close> one entry for each request to the listing endpoint,
  \<open>revokes\<close> one entry for each call of the provider's revoke.\<close>

record world =
  demo :: AuthDemo
  auths :: "promise list"
  listings :: "listing_call list"
  revokes :: "revoke_call list"

definition init :: world where
  "init = \<lparr> demo = constructor, auths = [], listings = [], revokes = [] \<rparr>"

subsection \<open>\<open>_run\<close>\<close>

text \<open>The condition of \<open>_run\<close>:
  \<open>!this._accessToken || this._tokenExpiresAt < Date.now()\<close>.\<close>

definition needs_authorization :: "AuthDemo \<Rightarrow> int \<Rightarrow> bool" where
  "needs_authorization d now \<longleftrightarrow> \<not> truthy_str (accessToken d) \<or> tokenExpiresAt d < now"

text \<open>\<open>_requestAuthorization\<close> up to its return: a token client is made and
  \<open>client.requestAccessToken()\<close> is called; the promise returned is pending.\<close>

definition requestAuthorization :: "world \<Rightarrow> world" where
  "requestAuthorization w = w\<lparr> auths := auths w @ [Pending] \<rparr>"

text \<open>\<open>fetchFileList(this._accessToken)\<close> up to \<open>await fetch(...)\<close>: the request leaves with
  the token the field holds at that moment.\<close>

definition call_fetchFileList :: "world \<Rightarrow> world" where
  "call_fetchFileList w =
     w\<lparr> listings := listings w @ [\<lparr> bearer = accessToken (demo w), outcome = None \<rparr>] \<rparr>"

text \<open>A click on "Fetch files": \<open>_run\<close> up to its first await.\<close>

definition run_click :: "int \<Rightarrow> world \<Rightarrow> world" where
  "run_click now w =
     (if needs_authorization (demo w) now then requestAuthorization w
      else call_fetchFileList w)"

text \<open>The request \<open>j\<close> settles: \<open>this._files = await fetchFileList(...)\<close> assigns the value
  returned; when the call throws, \<open>_run\<close> ends there and nothing is assigned.\<close>

definition http_settled :: "nat \<Rightarrow> http_outcome \<Rightarrow> world \<Rightarrow> world" where
  "http_settled j out w =
     (if j < length (listings w) \<and> outcome (listings w ! j) = None then
        (case fetchFileList out of
           Inl e \<Rightarrow> w\<lparr> listings := (listings w)[j := (listings w ! j)\<lparr> outcome := Some (Inl e) \<rparr>] \<rparr>
         | Inr v \<Rightarrow>
             w\<lparr> demo := (demo w)\<lparr> files := v \<rparr>,
                listings := (listings w)[j := (listings w ! j)\<lparr> outcome := Some (Inr v) \<rparr>] \<rparr>)
      else w)"

subsection \<open>\<open>_requestAuthorization\<close>: the two callbacks of the token client\<close>

definition scope :: string where
  "scope = ''https://www.googleapis.com/auth/drive.readonly''"

text \<open>The response the provider hands to \<open>callback\<close>. \<open>access_token\<close> is \<open>None\<close> when the
  property is missing. \<open>google.accounts.oauth2.hasGrantedAnyScope\<close> belongs to the SDK; the
  response carries the scopes the user granted and the function looks the scope up.\<close>

record token_response =
  access_token :: "string option"
  expires_in :: nat
  scopes :: "string list"

definition hasGrantedAnyScope :: "token_response \<Rightarrow> string \<Rightarrow> bool" where
  "hasGrantedAnyScope r sc \<longleftrightarrow> sc \<in> set (scopes r)"

text \<open>The condition of \<open>callback\<close> on a response that is not null or undefined:
  \<open>response.access_token && hasGrantedAnyScope(response, scope)\<close>.\<close>

definition grants :: "token_response \<Rightarrow> bool" where
  "grants r \<longleftrightarrow> truthy_str (access_token r) \<and> hasGrantedAnyScope r scope"

text \<open>The last statement of \<open>callback\<close>, reached when the condition fails.\<close>

definition callback_denied :: "world \<Rightarrow> world" where
  "callback_denied w = w\<lparr> demo := (demo w)\<lparr> error := Some ''Authorization required.'' \<rparr> \<rparr>"

text \<open>The branch of \<open>callback\<close> taken when the condition holds: three assignments, then
  \<open>resolve(this._accessToken)\<close>. When promise \<open>i\<close> was pending, the \<open>_run\<close> that awaits it
  goes on to \<open>fetchFileList(this._accessToken)\<close> before any other task runs.\<close>

definition callback_granted :: "nat \<Rightarrow> int \<Rightarrow> token_response \<Rightarrow> world \<Rightarrow> world" where
  "callback_granted i now r w =
     (let d = (demo w)\<lparr> error := None,
                        accessToken := access_token r,
                        tokenExpiresAt := now + int (expires_in r) * 1000 \<rparr>
      in if auths w ! i = Pending
         then call_fetchFileList (w\<lparr> demo := d, auths := (auths w)[i := Resolved (accessToken d)] \<rparr>)
         else w\<lparr> demo := d \<rparr>)"

text \<open>\<open>callback\<close> of the token client made by the \<open>i\<close>-th call of \<open>_requestAuthorization\<close>;
  a callback of a client that was never made cannot run. The condition is
  \<open>response && response.access_token && hasGrantedAnyScope(response, scope)\<close>.\<close>

fun callback :: "nat \<Rightarrow> int \<Rightarrow> token_response option \<Rightarrow> world \<Rightarrow> world" where
  "callback i now None w = (if i < length (auths w) then callback_denied w else w)"
| "callback i now (Some r) w =
     (if i < length (auths w) then
        (if grants r then callback_granted i now r w else callback_denied w)
      else w)"

text \<open>\<open>error_callback\<close> of the same client, with \<open>err.type\<close>: the message is set and the
  promise is rejected.\<close>

definition error_callback :: "nat \<Rightarrow> string \<Rightarrow> world \<Rightarrow> world" where
  "error_callback i ty w =
     (if i < length (auths w) then
        (let d = (demo w)\<lparr> error := Some (if ty = ''popup_closed''
                                            then ''Authorization required''
                                            else ''An unexpected error occurred'') \<rparr>
         in if auths w ! i = Pending
            then w\<lparr> demo := d, auths := (auths w)[i := Rejected ty] \<rparr>
            else w\<lparr> demo := d \<rparr>)
      else w)"

subsection \<open>\<open>_revoke\<close>\<close>

text \<open>A click on "Revoke access": \<open>_revoke\<close> up to the provider's callback.\<close>

definition revoke_click :: "world \<Rightarrow> world" where
  "revoke_click w =
     (if \<not> truthy_str (accessToken (demo w)) then w
      else w\<lparr> revokes := revokes w @ [\<lparr> revoked = accessToken (demo w), confirmed = False \<rparr>] \<rparr>)"

text \<open>The provider calls back on the \<open>k\<close>-th revoke: the two assignments of the callback.\<close>

definition revoke_done :: "nat \<Rightarrow> world \<Rightarrow> world" where
  "revoke_done k w =
     (if k < length (revokes w) \<and> \<not> confirmed (revokes w ! k) then
        w\<lparr> demo := (demo w)\<lparr> files := Some (JArr []), accessToken := None \<rparr>,
           revokes := (revokes w)[k := (revokes w ! k)\<lparr> confirmed := True \<rparr>] \<rparr>
      else w)"

subsection \<open>Events and runs\<close>

datatype event =
    FetchClick int
  | TokenCallback nat int "token_response option"
  | TokenError nat string
  | HttpSettled nat http_outcome
  | RevokeClick
  | RevokeDone nat

fun step :: "event \<Rightarrow> world \<Rightarrow> world" where
  "step (FetchClick now) w = run_click now w"
| "step (TokenCallback i now resp) w = callback i now resp w"
| "step (TokenError i ty) w = error_callback i ty w"
| "step (HttpSettled j out) w = http_settled j out w"
| "step RevokeClick w = revoke_click w"
| "step (RevokeDone k) w = revoke_done k w"

fun run :: "event list \<Rightarrow> world \<Rightarrow> world" where
  "run [] w = w"
| "run (e # es) w = run es (step e w)"

subsection \<open>Sample inputs\<close>

text \<open>A response that grants the requested scope with the token \<open>T\<close> for one second, and
  a listing body with two files.\<close>

definition grant_T :: token_response where
  "grant_T = \<lparr> access_token = Some ''T'', expires_in = 1, scopes = [scope] \<rparr>"

definition two_files :: json where
  "two_files =
     JObj [(''files'', JArr [JObj [(''name'', JStr ''a.txt'')], JObj [(''name'', JStr ''b.txt'')]])]"

section \<open>Properties\<close>

lemmas handler_defs =
  run_click_def requestAuthorization_def call_fetchFileList_def needs_authorization_def
  callback_denied_def callback_granted_def grants_def hasGrantedAnyScope_def
  error_callback_def revoke_click_def revoke_done_def http_settled_def Let_def

lemmas sample_defs = init_def constructor_def grant_T_def two_files_def

subsection \<open>Which events touch which field\<close>

lemma files_run_click: "files (demo (run_click now w)) = files (demo w)"
  by (simp add: run_click_def requestAuthorization_def call_fetchFileList_def)

lemma files_error_callback: "files (demo (error_callback i ty w)) = files (demo w)"
  by (simp add: error_callback_def Let_def)

lemma files_callback: "files (demo (callback i now resp w)) = files (demo w)"
  by (cases resp)
     (simp_all add: callback_denied_def callback_granted_def call_fetchFileList_def Let_def)

lemma files_http_failed:
  "fetchFileList out = Inl e \<Longrightarrow> files (demo (http_settled j out w)) = files (demo w)"
  by (simp add: http_settled_def)

lemma fetchFileList_failure_status:
  "400 \<le> status \<Longrightarrow> fetchFileList (Response status body) = Inl (Error ''Unable to fetch files'')"
  by simp

lemma run_snoc: "run (es @ [e]) w = step e (run es w)"
  by (induction es arbitrary: w) simp_all

text \<open>One event either leaves the pair (token, expiry) alone, or clears the token, or is a
  granting callback that writes both.\<close>

lemma credential_step:
  "(accessToken (demo (step e w)) = accessToken (demo w)
      \<and> tokenExpiresAt (demo (step e w)) = tokenExpiresAt (demo w))
   \<or> accessToken (demo (step e w)) = None
   \<or> (\<exists>i now r. e = TokenCallback i now (Some r) \<and> grants r
         \<and> accessToken (demo (step e w)) = access_token r
         \<and> tokenExpiresAt (demo (step e w)) = now + int (expires_in r) * 1000)"
proof (cases e)
  case (FetchClick now)
  then show ?thesis
    by (simp add: run_click_def requestAuthorization_def call_fetchFileList_def)
next
  case (TokenCallback i now resp)
  then show ?thesis
    by (cases resp)
       (simp_all add: callback_denied_def callback_granted_def call_fetchFileList_def Let_def)
next
  case (TokenError i ty)
  then show ?thesis by (simp add: error_callback_def Let_def)
next
  case (HttpSettled j out)
  then show ?thesis by (simp add: http_settled_def split: sum.splits)
next
  case RevokeClick
  then show ?thesis by (simp add: revoke_click_def)
next
  case (RevokeDone k)
  then show ?thesis by (simp add: revoke_done_def)
qed

lemma credential_inv:
  "accessToken (demo (run es init)) = None
   \<or> (\<exists>i now r. TokenCallback i now (Some r) \<in> set es \<and> grants r
         \<and> accessToken (demo (run es init)) = access_token r
         \<and> tokenExpiresAt (demo (run es init)) = now + int (expires_in r) * 1000)"
proof (induction es rule: rev_induct)
  case Nil
  show ?case by (simp add: init_def constructor_def)
next
  case (snoc e es)
  let ?w = "run es init"
  from credential_step [of e ?w] consider
      (same) "accessToken (demo (step e ?w)) = accessToken (demo ?w)"
             "tokenExpiresAt (demo (step e ?w)) = tokenExpiresAt (demo ?w)"
    | (none) "accessToken (demo (step e ?w)) = None"
    | (grant) i now r where "e = TokenCallback i now (Some r)" "grants r"
             "accessToken (demo (step e ?w)) = access_token r"
             "tokenExpiresAt (demo (step e ?w)) = now + int (expires_in r) * 1000"
    by auto
  then show ?case
  proof cases
    case same
    with snoc.IH show ?thesis by (auto simp add: run_snoc)
  next
    case none
    then show ?thesis by (simp add: run_snoc)
  next
    case grant
    then have "TokenCallback i now (Some r) \<in> set (es @ [e])" by simp
    with grant show ?thesis unfolding run_snoc by blast
  qed
qed

lemma map_names_named:
  "map_names (map (\<lambda>(n, rest). JObj ((''name'', JStr n) # rest)) nrs)
     = Inr (map (\<lambda>(n, rest). Some (JStr n)) nrs)"
  by (induction nrs) (simp_all split: prod.splits)

subsection \<open>C1: fetch triggers while an authorization is in flight\<close>

text \<open>
  C1, as the code has it: \<open>_run\<close> keeps no record of an authorization in flight. A fetch
  trigger starts a provider round-trip of its own exactly when \<open>needs_authorization\<close>
  holds, whatever the promises already pending; two triggers in a row that find no usable
  token start two round-trips, and both stay pending.
\<close>

theorem each_fetch_click_opens_popup:
  "auths (step (FetchClick now) w) =
     (if needs_authorization (demo w) now then auths w @ [Pending] else auths w)
   \<and> (needs_authorization (demo w) now \<and> now \<le> now' \<longrightarrow>
        run [FetchClick now, FetchClick now'] w = w\<lparr> auths := auths w @ [Pending, Pending] \<rparr>)"
  by (auto simp add: handler_defs)

text \<open>At the start of a session, two clicks one millisecond apart.\<close>

theorem each_fetch_click_opens_popup_witness:
  "needs_authorization (demo init) 1000 \<and> (1000::int) \<le> 1001
   \<and> run [FetchClick 1000, FetchClick 1001] init = init\<lparr> auths := [Pending, Pending] \<rparr>"
  using each_fetch_click_opens_popup [of 1000 init 1001]
  by (simp add: needs_authorization_def sample_defs)

text \<open>C1 as stated fails: after the first click one round-trip is in flight, and the
  second click starts a second one beside it.\<close>

theorem single_flight_counterexample:
  "auths (run [FetchClick 1000] init) = [Pending]
   \<and> auths (run [FetchClick 1000, FetchClick 1001] init) = [Pending, Pending]"
  by (simp add: handler_defs sample_defs)

subsection \<open>C2: reuse of the cached token\<close>

text \<open>
  C2, as the code has it: with a token stored, a fetch trigger at time \<open>now\<close> sends the
  listing request with the cached token and starts no round-trip exactly when
  \<open>now \<le> tokenExpiresAt\<close>; it starts a round-trip (and sends no request yet) exactly when
  \<open>tokenExpiresAt < now\<close>. At \<open>now = tokenExpiresAt\<close> the token is still used.
\<close>

theorem cached_token_reused_until_expiry:
  assumes "accessToken (demo w) = Some t" and "t \<noteq> []"
  shows "step (FetchClick now) w =
           (if now \<le> tokenExpiresAt (demo w)
            then w\<lparr> listings := listings w @ [\<lparr> bearer = Some t, outcome = None \<rparr>] \<rparr>
            else w\<lparr> auths := auths w @ [Pending] \<rparr>)"
  using assms by (simp add: handler_defs)

text \<open>The token \<open>T\<close> granted at time 0 for one second, used at time 1000.\<close>

theorem cached_token_reused_until_expiry_witness:
  "step (FetchClick 1000) (run [FetchClick 0, TokenCallback 0 0 (Some grant_T)] init) =
     \<lparr> demo = \<lparr> files = Some (JArr []), accessToken = Some ''T'', tokenExpiresAt = 1000,
                error = None \<rparr>,
       auths = [Resolved (Some ''T'')],
       listings = [\<lparr> bearer = Some ''T'', outcome = None \<rparr>,
                   \<lparr> bearer = Some ''T'', outcome = None \<rparr>],
       revokes = [] \<rparr>"
  using cached_token_reused_until_expiry
          [of "run [FetchClick 0, TokenCallback 0 0 (Some grant_T)] init" "''T''" 1000]
  by (simp add: handler_defs sample_defs)

text \<open>C2 as stated fails at equality: the token expires at 1000, and the click at 1000
  starts no round-trip and sends a second request with \<open>T\<close>.\<close>

theorem expiry_equality_counterexample:
  "tokenExpiresAt (demo (run [FetchClick 0, TokenCallback 0 0 (Some grant_T)] init)) = 1000
   \<and> auths (run [FetchClick 0, TokenCallback 0 0 (Some grant_T), FetchClick 1000] init)
       = [Resolved (Some ''T'')]
   \<and> map bearer (listings (run [FetchClick 0, TokenCallback 0 0 (Some grant_T), FetchClick 1000] init))
       = [Some ''T'', Some ''T'']"
  by (simp add: handler_defs sample_defs)

subsection \<open>C3: a denied authorization\<close>

text \<open>
  C3, as the code has it: a denial changes only \<open>_error\<close>. Through \<open>error_callback\<close> the
  message is \<open>Authorization required\<close> for a closed popup and
  \<open>An unexpected error occurred\<close> otherwise, the pending promise is rejected, and no listing
  request is sent. Through \<open>callback\<close> with no response, no token or without the scope, the
  message is \<open>Authorization required.\<close> and no listing request is sent. In both cases the
  stored token and expiry stay as they were.
\<close>

theorem denied_sets_error_keeps_credential:
  assumes "i < length (auths w)"
  shows "demo (step (TokenError i ty) w) =
           (demo w)\<lparr> error := Some (if ty = ''popup_closed'' then ''Authorization required''
                                     else ''An unexpected error occurred'') \<rparr>
     \<and> listings (step (TokenError i ty) w) = listings w
     \<and> (auths w ! i = Pending \<longrightarrow> auths (step (TokenError i ty) w) ! i = Rejected ty)
     \<and> demo (step (TokenCallback i now None) w) =
           (demo w)\<lparr> error := Some ''Authorization required.'' \<rparr>
     \<and> listings (step (TokenCallback i now None) w) = listings w
     \<and> (\<not> grants r \<longrightarrow>
          demo (step (TokenCallback i now (Some r)) w) =
             (demo w)\<lparr> error := Some ''Authorization required.'' \<rparr>
          \<and> listings (step (TokenCallback i now (Some r)) w) = listings w)"
  using assms by (simp add: error_callback_def callback_denied_def Let_def)

text \<open>An expired token \<open>T\<close>, a second round-trip, and its denial in both ways.\<close>

theorem denied_sets_error_keeps_credential_witness:
  "demo (run [FetchClick 0, TokenCallback 0 0 (Some grant_T),
              FetchClick 2000, TokenError 1 ''popup_closed''] init)
     = \<lparr> files = Some (JArr []), accessToken = Some ''T'', tokenExpiresAt = 1000,
         error = Some ''Authorization required'' \<rparr>
   \<and> demo (run [FetchClick 0, TokenCallback 0 0 (Some grant_T),
              FetchClick 2000, TokenCallback 1 2500 (Some (grant_T\<lparr> scopes := [] \<rparr>))] init)
     = \<lparr> files = Some (JArr []), accessToken = Some ''T'', tokenExpiresAt = 1000,
         error = Some ''Authorization required.'' \<rparr>
   \<and> length (listings (run [FetchClick 0, TokenCallback 0 0 (Some grant_T),
              FetchClick 2000, TokenCallback 1 2500 (Some (grant_T\<lparr> scopes := [] \<rparr>))] init)) = 1"
  using denied_sets_error_keeps_credential
          [of 1 "run [FetchClick 0, TokenCallback 0 0 (Some grant_T), FetchClick 2000] init"
              "''popup_closed''" 2500 "grant_T\<lparr> scopes := [] \<rparr>"]
  by (simp add: handler_defs sample_defs)

text \<open>C3 as stated fails: the user closes the popup of the second round-trip, and the
  token \<open>T\<close> with its expiry 1000 is still stored.\<close>

theorem denied_keeps_token_counterexample:
  "accessToken (demo (run [FetchClick 0, TokenCallback 0 0 (Some grant_T),
                           FetchClick 2000, TokenError 1 ''popup_closed''] init)) = Some ''T''
   \<and> tokenExpiresAt (demo (run [FetchClick 0, TokenCallback 0 0 (Some grant_T),
                           FetchClick 2000, TokenError 1 ''popup_closed''] init)) = 1000
   \<and> auths (run [FetchClick 0, TokenCallback 0 0 (Some grant_T),
                  FetchClick 2000, TokenError 1 ''popup_closed''] init)
       = [Resolved (Some ''T''), Rejected ''popup_closed'']"
  by (simp add: handler_defs sample_defs)

subsection \<open>C4: revocation\<close>

text \<open>
  C4, as the code has it: with a token stored, a click on "Revoke access" calls the
  provider's revoke with that token and changes nothing in the component. When the
  provider calls back, \<open>_accessToken\<close> becomes null and \<open>_files\<close> the empty list;
  \<open>_tokenExpiresAt\<close> is not assigned and keeps its value. The fourth conjunct says the same
  of the callback of any revoke call still open, in any state. The last one says that the
  expiry left behind is never read: with the token null, \<open>_run\<close> asks for authorization at
  every time.
\<close>

theorem revoke_clears_token_on_confirmation:
  assumes "accessToken (demo w) = Some t" and "t \<noteq> []"
  shows "step RevokeClick w = w\<lparr> revokes := revokes w @ [\<lparr> revoked = Some t, confirmed = False \<rparr>] \<rparr>
     \<and> step (RevokeDone (length (revokes w))) (step RevokeClick w) =
         w\<lparr> demo := (demo w)\<lparr> files := Some (JArr []), accessToken := None \<rparr>,
            revokes := revokes w @ [\<lparr> revoked = Some t, confirmed = True \<rparr>] \<rparr>
     \<and> tokenExpiresAt (demo (step (RevokeDone (length (revokes w))) (step RevokeClick w)))
         = tokenExpiresAt (demo w)
     \<and> (k < length (revokes v) \<and> \<not> confirmed (revokes v ! k) \<longrightarrow>
          demo (step (RevokeDone k) v) = (demo v)\<lparr> files := Some (JArr []), accessToken := None \<rparr>)
     \<and> needs_authorization (demo (step (RevokeDone (length (revokes w))) (step RevokeClick w))) now"
  using assms by (simp add: revoke_click_def revoke_done_def needs_authorization_def)

text \<open>The token \<open>T\<close> with expiry 1000, revoked.\<close>

theorem revoke_clears_token_on_confirmation_witness:
  "run [RevokeClick] (run [FetchClick 0, TokenCallback 0 0 (Some grant_T)] init)
     = (run [FetchClick 0, TokenCallback 0 0 (Some grant_T)] init)
         \<lparr> revokes := [\<lparr> revoked = Some ''T'', confirmed = False \<rparr>] \<rparr>
   \<and> demo (run [FetchClick 0, TokenCallback 0 0 (Some grant_T), RevokeClick, RevokeDone 0] init)
     = \<lparr> files = Some (JArr []), accessToken = None, tokenExpiresAt = 1000, error = None \<rparr>"
  using revoke_clears_token_on_confirmation
          [of "run [FetchClick 0, TokenCallback 0 0 (Some grant_T)] init" "''T''" 0
              "run [FetchClick 0, TokenCallback 0 0 (Some grant_T), RevokeClick] init"]
  by (simp add: handler_defs sample_defs)

text \<open>C4 as stated fails: after the provider has confirmed, the token is null and the
  expiry is still 1000, not 0.\<close>

theorem revoke_keeps_expiry_counterexample:
  "accessToken (demo (run [FetchClick 0, TokenCallback 0 0 (Some grant_T),
                           RevokeClick, RevokeDone 0] init)) = None
   \<and> tokenExpiresAt (demo (run [FetchClick 0, TokenCallback 0 0 (Some grant_T),
                           RevokeClick, RevokeDone 0] init)) = 1000"
  by (simp add: handler_defs sample_defs)

subsection \<open>C5: token and expiry\<close>

text \<open>
  C5, as the code has it: in every state reached from the constructor by any sequence of
  events, a stored token is a non-empty string, and it was written together with the
  stored expiry by one granting callback of the sequence: the token is that response's
  \<open>access_token\<close> and the expiry is that callback's clock reading plus
  \<open>expires_in * 1000\<close>, which is not 0 when the clock reading is positive. Only this
  direction holds: a null token says nothing about the expiry.
\<close>

theorem stored_token_paired_with_expiry:
  assumes "accessToken (demo (run es init)) = Some t"
  shows "t \<noteq> []
     \<and> (\<exists>i now r. TokenCallback i now (Some r) \<in> set es \<and> grants r
           \<and> access_token r = Some t
           \<and> tokenExpiresAt (demo (run es init)) = now + int (expires_in r) * 1000
           \<and> (0 < now \<longrightarrow> tokenExpiresAt (demo (run es init)) \<noteq> 0))"
proof -
  from credential_inv [of es] assms obtain i now r where
    g: "TokenCallback i now (Some r) \<in> set es" "grants r" "access_token r = Some t"
       "tokenExpiresAt (demo (run es init)) = now + int (expires_in r) * 1000"
    by auto
  from g(2,3) have "t \<noteq> []" by (simp add: grants_def)
  moreover from g(4) have "0 < now \<longrightarrow> tokenExpiresAt (demo (run es init)) \<noteq> 0" by simp
  ultimately show ?thesis using g by blast
qed

text \<open>One grant at time 5.\<close>

theorem stored_token_paired_with_expiry_witness:
  "accessToken (demo (run [FetchClick 5, TokenCallback 0 5 (Some grant_T)] init)) = Some ''T''
   \<and> (\<exists>i now r. TokenCallback i now (Some r) \<in> set [FetchClick 5, TokenCallback 0 5 (Some grant_T)]
         \<and> grants r \<and> access_token r = Some ''T''
         \<and> tokenExpiresAt (demo (run [FetchClick 5, TokenCallback 0 5 (Some grant_T)] init))
             = now + int (expires_in r) * 1000
         \<and> tokenExpiresAt (demo (run [FetchClick 5, TokenCallback 0 5 (Some grant_T)] init)) = 1005)"
proof -
  have tok: "accessToken (demo (run [FetchClick 5, TokenCallback 0 5 (Some grant_T)] init)) = Some ''T''"
    by (simp add: handler_defs sample_defs)
  have ex: "tokenExpiresAt (demo (run [FetchClick 5, TokenCallback 0 5 (Some grant_T)] init)) = 1005"
    by (simp add: handler_defs sample_defs)
  from stored_token_paired_with_expiry [OF tok] tok ex show ?thesis by blast
qed

text \<open>C5 as stated fails: after a grant and a confirmed revoke the token is null while
  the expiry is 1005.\<close>

theorem stale_expiry_counterexample:
  "accessToken (demo (run [FetchClick 5, TokenCallback 0 5 (Some grant_T),
                           RevokeClick, RevokeDone 0] init)) = None
   \<and> tokenExpiresAt (demo (run [FetchClick 5, TokenCallback 0 5 (Some grant_T),
                           RevokeClick, RevokeDone 0] init)) = 1005"
  by (simp add: handler_defs sample_defs)

subsection \<open>C6: the outcome of the listing call\<close>

text \<open>
  C6, as the code has it: every status from 400 up makes \<open>fetchFileList\<close> throw the one
  error \<open>Unable to fetch files\<close>, whatever the status and the body; a status below 400 with
  a JSON object as body returns the value of the body's property \<open>files\<close> as it is, so a
  list of files comes back in the order given; and \<open>filesTemplate\<close> renders the names of a
  non-empty list of named files in that order.
\<close>

theorem fetchFileList_classification:
  "(400 \<le> status \<longrightarrow>
      fetchFileList (Response status body) = Inl (Error ''Unable to fetch files''))
   \<and> (status < 400 \<longrightarrow>
      fetchFileList (Response status (Some (JObj kvs))) = Inr (map_of kvs ''files''))
   \<and> (nrs \<noteq> [] \<longrightarrow>
      filesTemplate (Some (JArr (map (\<lambda>(n, rest). JObj ((''name'', JStr n) # rest)) nrs)))
        = Inr (Some (map (\<lambda>(n, rest). Some (JStr n)) nrs)))"
  by (simp add: map_names_named)

text \<open>Status 401 and status 200, each with the body that lists \<open>a.txt\<close> and \<open>b.txt\<close>.\<close>

theorem fetchFileList_classification_witness:
  "(400::nat) \<le> 401 \<and> (200::nat) < 400
   \<and> fetchFileList (Response 401 (Some two_files)) = Inl (Error ''Unable to fetch files'')
   \<and> fetchFileList (Response 200 (Some two_files))
       = Inr (Some (JArr [JObj [(''name'', JStr ''a.txt'')], JObj [(''name'', JStr ''b.txt'')]]))
   \<and> filesTemplate (Some (JArr [JObj [(''name'', JStr ''a.txt'')], JObj [(''name'', JStr ''b.txt'')]]))
       = Inr (Some [Some (JStr ''a.txt''), Some (JStr ''b.txt'')])"
  using fetchFileList_classification
          [of 401 "Some two_files", where nrs = "[(''a.txt'', []), (''b.txt'', [])]"]
        fetchFileList_classification
          [of 200 None
              "[(''files'', JArr [JObj [(''name'', JStr ''a.txt'')], JObj [(''name'', JStr ''b.txt'')]])]"
              "[]"]
  by (simp add: two_files_def)

text \<open>C6 as stated fails: 401, 403 and 500 end in the same error value.\<close>

theorem unauthorized_not_distinguished_counterexample:
  "fetchFileList (Response 401 None) = Inl (Error ''Unable to fetch files'')
   \<and> fetchFileList (Response 403 None) = Inl (Error ''Unable to fetch files'')
   \<and> fetchFileList (Response 500 None) = Inl (Error ''Unable to fetch files'')"
  by simp

subsection \<open>C7: a body without a file collection\<close>

text \<open>
  C7 at the input where the code leaves it: a response with status 200 and the body
  \<open>{}\<close>. \<open>fetchFileList\<close> returns \<open>undefined\<close> as a result, \<open>_run\<close> assigns it to \<open>_files\<close>,
  and \<open>filesTemplate\<close> then throws a \<open>TypeError\<close> on \<open>this._files.length\<close>.
\<close>

theorem missing_files_reach_the_template:
  "fetchFileList (Response 200 (Some (JObj []))) = Inr None
   \<and> files (demo (run [FetchClick 0, TokenCallback 0 0 (Some grant_T),
                       HttpSettled 0 (Response 200 (Some (JObj [])))] init)) = None
   \<and> filesTemplate (files (demo (run [FetchClick 0, TokenCallback 0 0 (Some grant_T),
                       HttpSettled 0 (Response 200 (Some (JObj [])))] init))) = Inl TypeError"
  by (simp add: handler_defs sample_defs)

subsection \<open>C8: settling the promise of \<open>_requestAuthorization\<close>\<close>

text \<open>
  C8 at the inputs where the code leaves it: \<open>callback\<close> runs with a response that has no
  token, with a response that has the token but not the scope, or with no response. Each
  time the promise of the round-trip is still pending afterwards: the branch sets the
  message and calls neither \<open>resolve\<close> nor \<open>reject\<close>. The sibling \<open>error_callback\<close> does
  reject.
\<close>

theorem denied_callback_leaves_promise_pending:
  "auths (run [FetchClick 0,
               TokenCallback 0 0 (Some \<lparr> access_token = None, expires_in = 0, scopes = [] \<rparr>)] init)
     = [Pending]
   \<and> auths (run [FetchClick 0, TokenCallback 0 0 (Some (grant_T\<lparr> scopes := [] \<rparr>))] init)
     = [Pending]
   \<and> auths (run [FetchClick 0, TokenCallback 0 0 None] init) = [Pending]
   \<and> auths (run [FetchClick 0, TokenError 0 ''popup_closed''] init) = [Rejected ''popup_closed'']"
  by (simp add: handler_defs sample_defs scope_def)

subsection \<open>C9: a granted authorization\<close>

text \<open>
  C9: when the callback of a pending round-trip \<open>i\<close> runs at time \<open>t\<close> with a response that
  carries the non-empty token \<open>T\<close> and grants the scope, the component stores \<open>T\<close>, sets
  the expiry to \<open>t + expires_in * 1000\<close>, clears the error, and the promise resolves with
  \<open>T\<close>. A fetch trigger at any time up to that expiry, so also at \<open>t\<close> itself, sends the
  listing request with \<open>T\<close> and starts no round-trip; a fetch trigger one millisecond after
  the expiry starts a new round-trip.
\<close>

theorem granted_stores_credential:
  assumes "i < length (auths w)" and "auths w ! i = Pending"
    and "access_token r = Some T" and "T \<noteq> []" and "hasGrantedAnyScope r scope"
  shows "accessToken (demo (step (TokenCallback i t (Some r)) w)) = Some T
     \<and> tokenExpiresAt (demo (step (TokenCallback i t (Some r)) w)) = t + int (expires_in r) * 1000
     \<and> error (demo (step (TokenCallback i t (Some r)) w)) = None
     \<and> auths (step (TokenCallback i t (Some r)) w) ! i = Resolved (Some T)
     \<and> (\<forall>now. now \<le> t + int (expires_in r) * 1000 \<longrightarrow>
          step (FetchClick now) (step (TokenCallback i t (Some r)) w) =
            (step (TokenCallback i t (Some r)) w)
              \<lparr> listings := listings (step (TokenCallback i t (Some r)) w)
                             @ [\<lparr> bearer = Some T, outcome = None \<rparr>] \<rparr>)
     \<and> step (FetchClick (t + int (expires_in r) * 1000 + 1)) (step (TokenCallback i t (Some r)) w) =
          (step (TokenCallback i t (Some r)) w)
             \<lparr> auths := auths (step (TokenCallback i t (Some r)) w) @ [Pending] \<rparr>"
  using assms by (simp add: handler_defs)

text \<open>The first round-trip of a session, granted at time 7 for one second.\<close>

theorem granted_stores_credential_witness:
  "accessToken (demo (run [FetchClick 5, TokenCallback 0 7 (Some grant_T)] init)) = Some ''T''
   \<and> tokenExpiresAt (demo (run [FetchClick 5, TokenCallback 0 7 (Some grant_T)] init)) = 1007
   \<and> error (demo (run [FetchClick 5, TokenCallback 0 7 (Some grant_T)] init)) = None
   \<and> auths (run [FetchClick 5, TokenCallback 0 7 (Some grant_T)] init) = [Resolved (Some ''T'')]
   \<and> auths (run [FetchClick 5, TokenCallback 0 7 (Some grant_T), FetchClick 7] init)
        = [Resolved (Some ''T'')]
   \<and> auths (run [FetchClick 5, TokenCallback 0 7 (Some grant_T), FetchClick 1008] init)
        = [Resolved (Some ''T''), Pending]"
  using granted_stores_credential [of 0 "step (FetchClick 5) init" grant_T "''T''" 7]
  by (simp add: handler_defs sample_defs)

subsection \<open>C10: a failed run and the file list\<close>

text \<open>
  C10: no event of a failing run assigns \<open>_files\<close>. The list is the same after a listing
  response with a status from 400 up, after any settlement of the request on which
  \<open>fetchFileList\<close> throws, after \<open>error_callback\<close> rejects the round-trip, after the click
  itself, and after \<open>callback\<close>, whatever the response.
\<close>

theorem failed_run_keeps_files:
  "(400 \<le> status \<longrightarrow>
      files (demo (step (HttpSettled j (Response status body)) w)) = files (demo w))
   \<and> (fetchFileList out = Inl e \<longrightarrow>
      files (demo (step (HttpSettled j out) w)) = files (demo w))
   \<and> files (demo (step (TokenError i ty) w)) = files (demo w)
   \<and> files (demo (step (FetchClick now) w)) = files (demo w)
   \<and> files (demo (step (TokenCallback i now resp) w)) = files (demo w)"
proof (intro conjI impI)
  assume "400 \<le> status"
  then have "fetchFileList (Response status body) = Inl (Error ''Unable to fetch files'')"
    by (rule fetchFileList_failure_status)
  then show "files (demo (step (HttpSettled j (Response status body)) w)) = files (demo w)"
    by (simp only: step.simps files_http_failed)
next
  assume "fetchFileList out = Inl e"
  then show "files (demo (step (HttpSettled j out) w)) = files (demo w)"
    by (simp only: step.simps files_http_failed)
qed (simp_all only: step.simps files_error_callback files_run_click files_callback)

text \<open>Two files are listed; then one run fails on status 500 and another on a closed
  popup. The two files are still there.\<close>

theorem failed_run_keeps_files_witness:
  "(400::nat) \<le> 500
   \<and> files (demo (run [FetchClick 0, TokenCallback 0 0 (Some grant_T),
                       HttpSettled 0 (Response 200 (Some two_files))] init))
       = Some (JArr [JObj [(''name'', JStr ''a.txt'')], JObj [(''name'', JStr ''b.txt'')]])
   \<and> files (demo (run [FetchClick 0, TokenCallback 0 0 (Some grant_T),
                       HttpSettled 0 (Response 200 (Some two_files)),
                       FetchClick 10, HttpSettled 1 (Response 500 None)] init))
       = Some (JArr [JObj [(''name'', JStr ''a.txt'')], JObj [(''name'', JStr ''b.txt'')]])
   \<and> files (demo (run [FetchClick 0, TokenCallback 0 0 (Some grant_T),
                       HttpSettled 0 (Response 200 (Some two_files)),
                       FetchClick 2000, TokenError 1 ''popup_closed''] init))
       = Some (JArr [JObj [(''name'', JStr ''a.txt'')], JObj [(''name'', JStr ''b.txt'')]])"
  using failed_run_keeps_files
          [of 500 1 None
              "run [FetchClick 0, TokenCallback 0 0 (Some grant_T),
                    HttpSettled 0 (Response 200 (Some two_files)), FetchClick 10] init"
              "Response 500 None" "Error ''Unable to fetch files''" 1 "''popup_closed''" 2000 None]
  by (simp add: handler_defs sample_defs)

end
